theory Spec2Isabelle
  imports Main "HOL-Library.Sublist"
begin

section \<open>Values shared by the three packages\<close>

text \<open>
  Go \<open>error\<close> values.  \<open>ErrNoDetail\<close> is the sentinel declared in \<open>errors/errors.go\<close>;
  \<open>ValidationErrors\<close> is the validator's slice of field errors, each reduced to the pair
  \<open>(Field(), Tag())\<close> that \<open>bindHandler\<close> reads; \<open>ErrorString\<close> is any other leaf error
  with its text; \<open>Wrapped\<close> is an error that wraps another one (\<open>fmt.Errorf\<close> with \<open>%w\<close>).
  A \<open>nil\<close> error is \<open>None\<close> of \<open>go_error option\<close>.
\<close>

datatype go_error =
    ErrNoDetail
  | ErrorString string
  | ValidationErrors "(string \<times> string) list"
  | Wrapped string go_error

text \<open>\<open>errors.Is(err, ErrNoDetail)\<close>: the sentinel itself or anything wrapping it.\<close>

fun errors_Is_ErrNoDetail :: "go_error \<Rightarrow> bool" where
  "errors_Is_ErrNoDetail ErrNoDetail = True"
| "errors_Is_ErrNoDetail (ErrorString s) = False"
| "errors_Is_ErrNoDetail (ValidationErrors fs) = False"
| "errors_Is_ErrNoDetail (Wrapped s e) = errors_Is_ErrNoDetail e"

text \<open>\<open>errors.As(err, &vErr)\<close> for \<open>vErr\<close> a \<open>ValidationErrors\<close>: the first one in the chain.\<close>

fun errors_As_ValidationErrors :: "go_error \<Rightarrow> (string \<times> string) list option" where
  "errors_As_ValidationErrors ErrNoDetail = None"
| "errors_As_ValidationErrors (ErrorString s) = None"
| "errors_As_ValidationErrors (ValidationErrors fs) = Some fs"
| "errors_As_ValidationErrors (Wrapped s e) = errors_As_ValidationErrors e"

text \<open>JSON documents written to the response; \<open>gin.H\<close> is a map from field names.\<close>

datatype json =
    JString string
  | JArray "json list"
  | JObject "string \<Rightarrow> json option"

text \<open>
  A request body is an \<open>io.Reader\<close>: the bytes it still holds, and whether reading it
  to the end ends in an error instead of EOF.
\<close>

record reader =
  pending :: string
  failing :: bool

text \<open>\<open>io.NopCloser(bytes.NewReader(body))\<close>.\<close>

definition NewReader :: "string \<Rightarrow> reader" where
  "NewReader body = \<lparr>pending = body, failing = False\<rparr>"

definition ReadAll :: "reader \<Rightarrow> go_error + string" where
  "ReadAll r = (if failing r then Inl (ErrorString ''read error'') else Inr (pending r))"

text \<open>The reader after \<open>io.ReadAll\<close> went through it.\<close>

definition drained :: "reader \<Rightarrow> reader" where
  "drained r = r\<lparr>pending := []\<rparr>"

section \<open>The logger library (zerolog), as far as the middleware uses it\<close>

text \<open>
  \<open>zerolog.Level\<close> is a small integer: Trace \<open>-1\<close>, Debug \<open>0\<close>, Info \<open>1\<close>, Warn \<open>2\<close>,
  Error \<open>3\<close>, Fatal \<open>4\<close>, Panic \<open>5\<close>, NoLevel \<open>6\<close>, Disabled \<open>7\<close>.
\<close>

type_synonym level = int

definition TraceLevel :: level where "TraceLevel = -1"
definition DebugLevel :: level where "DebugLevel = 0"
definition InfoLevel :: level where "InfoLevel = 1"
definition WarnLevel :: level where "WarnLevel = 2"
definition Disabled :: level where "Disabled = 7"

datatype field_value = FStr string | FInt int | FDur nat

text \<open>A logger value: the fields attached with \<open>With()\<close> and its minimum level.\<close>

record logger =
  attached :: "(string \<times> field_value) list"
  min_level :: level

text \<open>One emitted record; the message is the format string with its arguments.\<close>

record log_record =
  rec_level :: level
  rec_fields :: "(string \<times> field_value) list"
  rec_format :: string
  rec_args :: "field_value list"

text \<open>\<open>l.With().Str(k, v).Logger()\<close> and \<open>l.Level(lvl)\<close>: copies of \<open>l\<close>.\<close>

definition With_Str :: "string \<Rightarrow> string \<Rightarrow> logger \<Rightarrow> logger" where
  "With_Str k v l = l\<lparr>attached := attached l @ [(k, FStr v)]\<rparr>"

definition Level :: "level \<Rightarrow> logger \<Rightarrow> logger" where
  "Level lvl l = l\<lparr>min_level := lvl\<rparr>"

text \<open>
  \<open>l.WithLevel(lvl)\<close> gives an event that is written only if \<open>lvl\<close> is not \<open>Disabled\<close>
  and is at least the logger's minimum level and the library's global level
  (the package comment of \<open>zlog.go\<close> warns about the latter).
\<close>

definition should :: "level \<Rightarrow> logger \<Rightarrow> level \<Rightarrow> bool" where
  "should zerologGlobal l lvl \<longleftrightarrow> lvl \<noteq> Disabled \<and> min_level l \<le> lvl \<and> zerologGlobal \<le> lvl"

section \<open>The part of \<open>gin.Context\<close> the middleware touches\<close>

text \<open>
  \<open>'v\<close> is the type of bound targets.  \<open>ctxLogger\<close> is the value of the request's
  \<open>context.Context\<close> under \<open>loggerKey{}\<close>; \<open>Keys\<close> is the store behind \<open>ctx.Set\<close>;
  \<open>body_out\<close> lists the JSON documents written to the response, \<open>log_out\<close> the records
  written to the process-wide log output.  \<open>status\<close> and \<open>size\<close> are what the
  response writer reports; rendering is not modelled, so writing a document leaves
  \<open>size\<close> as it is.
\<close>

record 'v Context =
  reqMethod :: string
  reqPath :: string
  reqQuery :: string
  reqOrigin :: string
  clientIP :: string
  reqBody :: "reader option"
  ctxLogger :: "logger option"
  Keys :: "string \<Rightarrow> 'v option"
  aborted :: bool
  Errors :: "go_error list"
  status :: int
  size :: int
  headers :: "string \<Rightarrow> string option"
  body_out :: "json list"
  log_out :: "log_record list"

definition Abort :: "'v Context \<Rightarrow> 'v Context" where
  "Abort c = c\<lparr>aborted := True\<rparr>"

definition Error :: "go_error \<Rightarrow> 'v Context \<Rightarrow> 'v Context" where
  "Error err c = c\<lparr>Errors := Errors c @ [err]\<rparr>"

definition Set :: "string \<Rightarrow> 'v \<Rightarrow> 'v Context \<Rightarrow> 'v Context" where
  "Set k v c = c\<lparr>Keys := (Keys c)(k \<mapsto> v)\<rparr>"

text \<open>\<open>ctx.AbortWithStatus(code)\<close>: the status line only, no body.\<close>

definition AbortWithStatus :: "int \<Rightarrow> 'v Context \<Rightarrow> 'v Context" where
  "AbortWithStatus c ctx = Abort (ctx\<lparr>status := c\<rparr>)"

text \<open>\<open>ctx.AbortWithStatusJSON(code, obj)\<close>: abort, then the status and the document.\<close>

definition AbortWithStatusJSON :: "int \<Rightarrow> json \<Rightarrow> 'v Context \<Rightarrow> 'v Context" where
  "AbortWithStatusJSON c obj ctx = (Abort ctx)\<lparr>status := c, body_out := body_out ctx @ [obj]\<rparr>"

text \<open>
  \<open>ctx.ShouldBind(target)\<close> belongs to the framework.  It is a parameter: from the
  request and the fresh target it gives an error or the populated target, and the number
  of bytes it read from the request body on the way.
\<close>

type_synonym 'v should_bind = "'v Context \<Rightarrow> 'v \<Rightarrow> (go_error + 'v) \<times> nat"

definition ShouldBind :: "'v should_bind \<Rightarrow> 'v Context \<Rightarrow> 'v \<Rightarrow> (go_error + 'v) \<times> 'v Context" where
  "ShouldBind sb ctx target =
     (case sb ctx target of
        (res, n) \<Rightarrow>
          (res, ctx\<lparr>reqBody := map_option (\<lambda>r. r\<lparr>pending := drop n (pending r)\<rparr>) (reqBody ctx)\<rparr>))"

section \<open>Package bind\<close>

record bindOpts =
  key :: string
  abort :: bool
  response :: bool
  detail :: bool
  code :: int

type_synonym BindOpts = "bindOpts \<Rightarrow> bindOpts"

text \<open>The package-level variables \<open>defaultKey\<close>, ..., \<open>defaultCode\<close>.\<close>

record bind_defaults =
  defaultKey :: string
  defaultAbort :: bool
  defaultResponse :: bool
  defaultDetail :: bool
  defaultCode :: int

definition StatusBadRequest :: int where
  "StatusBadRequest = 400"

definition initial_defaults :: bind_defaults where
  "initial_defaults =
     \<lparr>defaultKey = ''body'', defaultAbort = False, defaultResponse = False,
      defaultDetail = False, defaultCode = StatusBadRequest\<rparr>"

definition defaultBindOpts :: "bind_defaults \<Rightarrow> bindOpts" where
  "defaultBindOpts d =
     \<lparr>key = defaultKey d, abort = defaultAbort d, response = defaultResponse d,
      detail = defaultDetail d, code = defaultCode d\<rparr>"

definition WithKey :: "string \<Rightarrow> BindOpts" where
  "WithKey k bo = bo\<lparr>key := k\<rparr>"

definition WithAbort :: BindOpts where
  "WithAbort bo = bo\<lparr>abort := True\<rparr>"

definition WithResponse :: BindOpts where
  "WithResponse bo = bo\<lparr>response := True\<rparr>"

definition WithResponseCode :: "int \<Rightarrow> BindOpts" where
  "WithResponseCode c bo = bo\<lparr>response := True, code := c\<rparr>"

definition WithResponseDetail :: BindOpts where
  "WithResponseDetail bo = bo\<lparr>response := True, detail := True\<rparr>"

text \<open>The loop of \<open>getBindOpts\<close>: each mutator is applied to the result of the ones before.\<close>

fun applyOpts :: "bindOpts \<Rightarrow> BindOpts list \<Rightarrow> bindOpts" where
  "applyOpts bo [] = bo"
| "applyOpts bo (f # fs) = applyOpts (f bo) fs"

definition getBindOpts :: "bind_defaults \<Rightarrow> BindOpts list \<Rightarrow> bindOpts" where
  "getBindOpts d opts = applyOpts (defaultBindOpts d) opts"

text \<open>The mutators a caller can build with the package's exported constructors.\<close>

definition is_option :: "BindOpts \<Rightarrow> bool" where
  "is_option f \<longleftrightarrow>
     f = WithAbort \<or> f = WithResponse \<or> f = WithResponseDetail \<or>
     (\<exists>k. f = WithKey k) \<or> (\<exists>c. f = WithResponseCode c)"

text \<open>
  The first block of \<open>bindHandler\<close>: with a body present, read all of it and put a copy
  in its place; a read error ends the handler (\<open>Inl\<close>, with the context as it is left).
\<close>

definition bufferBody :: "'v Context \<Rightarrow> 'v Context + (string \<times> 'v Context)" where
  "bufferBody ctx =
     (case reqBody ctx of
        None \<Rightarrow> Inr ([], ctx)
      | Some r \<Rightarrow>
          (case ReadAll r of
             Inl err \<Rightarrow> Inl (ctx\<lparr>reqBody := Some (drained r)\<rparr>)
           | Inr body \<Rightarrow> Inr (body, ctx\<lparr>reqBody := Some (NewReader body)\<rparr>)))"

text \<open>The list \<open>errs\<close> and the document \<open>res\<close> of the validation branch.\<close>

definition validation_body :: "(string \<times> string) list \<Rightarrow> json" where
  "validation_body vErr =
     JObject [''code'' \<mapsto> JString ''validation_error'',
              ''errors'' \<mapsto> JArray (map (\<lambda>(f, t). JObject [''field'' \<mapsto> JString f, ''rule'' \<mapsto> JString t]) vErr)]"

definition bindHandler :: "'v should_bind \<Rightarrow> 'v Context \<Rightarrow> 'v \<Rightarrow> bindOpts \<Rightarrow> 'v Context" where
  "bindHandler sb ctx target opts =
     (case bufferBody ctx of
        Inl ctx' \<Rightarrow> ctx'
      | Inr (body, ctx1) \<Rightarrow>
          (case ShouldBind sb ctx1 target of
             (Inl err, ctx2) \<Rightarrow>
               if abort opts then
                 Error err (Abort (ctx2\<lparr>reqBody := Some (NewReader body)\<rparr>))
               else if response opts then
                 (case errors_As_ValidationErrors err of
                    Some vErr \<Rightarrow>
                      if detail opts then AbortWithStatusJSON (code opts) (validation_body vErr) ctx2
                      else AbortWithStatus (code opts) ctx2
                  | None \<Rightarrow> AbortWithStatus (code opts) ctx2)
               else ctx2
           | (Inr v, ctx2) \<Rightarrow>
               Set (key opts) v
                 (if reqBody ctx2 \<noteq> None then ctx2\<lparr>reqBody := Some (NewReader body)\<rparr> else ctx2)))"

text \<open>
  \<open>reflect.TypeOf(s)\<close>: \<open>None\<close> for a nil interface, otherwise the kind of the type and
  what \<open>reflect.New(t).Interface()\<close> gives, a fresh zero instance.
\<close>

datatype kind = Invalid | Bool | IntKind | String | Array | Chan | Func | Interface | Map
  | Pointer | Slice | Struct | UnsafePointer

record 'v rtype =
  Kind :: kind
  New :: 'v

datatype panic = BindToPanic kind | NilDereference

definition As :: "'v should_bind \<Rightarrow> bind_defaults \<Rightarrow> (unit \<Rightarrow> 'v) \<Rightarrow> BindOpts list \<Rightarrow> 'v Context \<Rightarrow> 'v Context" where
  "As sb d pv opts = (let bo = getBindOpts d opts in (\<lambda>ctx. bindHandler sb ctx (pv ()) bo))"

definition To :: "'v should_bind \<Rightarrow> bind_defaults \<Rightarrow> 'v rtype option \<Rightarrow> BindOpts list
    \<Rightarrow> panic + ('v Context \<Rightarrow> 'v Context)" where
  "To sb d s opts =
     (let bo = getBindOpts d opts in
      case s of
        None \<Rightarrow> Inl NilDereference
      | Some t \<Rightarrow>
          if Kind t \<noteq> Struct then Inl (BindToPanic (Kind t))
          else Inr (\<lambda>ctx. bindHandler sb ctx (New t) bo))"

section \<open>Package errors\<close>

text \<open>
  \<open>errors_detail\<close> is the package variable \<open>detail\<close>; \<open>IsThisError\<close> is the description
  function of the imported \<open>wtf\<close> library, a parameter here.
\<close>

definition AbortWithError :: "bool \<Rightarrow> (go_error \<Rightarrow> json) \<Rightarrow> 'v Context \<Rightarrow> go_error option \<Rightarrow> int \<Rightarrow> string
    \<Rightarrow> bool \<times> 'v Context" where
  "AbortWithError errors_detail IsThisError ctx err st cd =
     (case err of
        Some e \<Rightarrow>
          (let body = [''code'' \<mapsto> JString cd];
               body' = (if errors_detail \<and> \<not> errors_Is_ErrNoDetail e
                        then body(''error'' \<mapsto> IsThisError e) else body)
           in (True, AbortWithStatusJSON st (JObject body') ctx))
      | None \<Rightarrow> (False, ctx))"

definition AbortWith :: "bool \<Rightarrow> (go_error \<Rightarrow> json) \<Rightarrow> 'v Context \<Rightarrow> int \<Rightarrow> string \<Rightarrow> bool \<times> 'v Context" where
  "AbortWith errors_detail IsThisError ctx st cd =
     AbortWithError errors_detail IsThisError ctx (Some ErrNoDetail) st cd"

section \<open>Package zlog\<close>

text \<open>
  The process-wide settings read while a request is served: the two package variables,
  the library's global level, and \<open>log.Logger\<close>, the logger every other one derives from.
\<close>

record zlog_env =
  globalRequestLevel :: level
  globalResponseLevel :: level
  zerologGlobalLevel :: level
  log_Logger :: logger

text \<open>\<open>l.WithLevel(lvl). ... .Msg(...)\<close>: one record, if the event passes the filter.\<close>

definition Msg :: "zlog_env \<Rightarrow> logger \<Rightarrow> level \<Rightarrow> (string \<times> field_value) list \<Rightarrow> string \<Rightarrow> field_value list
    \<Rightarrow> 'v Context \<Rightarrow> 'v Context" where
  "Msg env l lvl fs fmt args c =
     (if should (zerologGlobalLevel env) l lvl
      then c\<lparr>log_out := log_out c @
             [\<lparr>rec_level = lvl, rec_fields = attached l @ fs, rec_format = fmt, rec_args = args\<rparr>]\<rparr>
      else c)"

definition WithLogger :: "'v Context \<Rightarrow> logger \<Rightarrow> 'v Context" where
  "WithLogger parent l = parent\<lparr>ctxLogger := Some l\<rparr>"

definition setLogger :: "'v Context \<Rightarrow> logger \<Rightarrow> 'v Context" where
  "setLogger c l = WithLogger c l"

definition GetLogger :: "zlog_env \<Rightarrow> 'v Context \<Rightarrow> logger" where
  "GetLogger env ctx = (case ctxLogger ctx of Some l \<Rightarrow> l | None \<Rightarrow> log_Logger env)"

definition SetLevel :: "zlog_env \<Rightarrow> level \<Rightarrow> 'v Context \<Rightarrow> 'v Context" where
  "SetLevel env lvl ctx = (let l = Level lvl (GetLogger env ctx) in setLogger ctx l)"

definition Header :: "string \<Rightarrow> string \<Rightarrow> 'v Context \<Rightarrow> 'v Context" where
  "Header k v c = c\<lparr>headers := (headers c)(k \<mapsto> v)\<rparr>"

text \<open>
  The handler returned by \<open>Logger(lvl)\<close>, in its two halves around \<open>c.Next()\<close>.
  \<open>requestID\<close> is the encoded random identifier, \<open>elapsed\<close> the measured duration, and
  \<open>Next\<close> the rest of the handler chain; all three are inputs of the model.
\<close>

definition Logger_request :: "zlog_env \<Rightarrow> level \<Rightarrow> string \<Rightarrow> 'v Context \<Rightarrow> 'v Context" where
  "Logger_request env lvl requestID c =
     (let c1 = Header ''X-Request-ID'' requestID c;
          l = Level lvl (With_Str ''id'' requestID (log_Logger env));
          c2 = setLogger c1 l
      in Msg env l (globalRequestLevel env)
           [(''method'', FStr (reqMethod c2)), (''origin'', FStr (reqOrigin c2)),
            (''path'', FStr (reqPath c2)), (''ip'', FStr (clientIP c2))]
           ''REQ %s %s %s'' [FStr (reqMethod c2), FStr (reqPath c2), FStr (clientIP c2)] c2)"

definition Logger_response :: "zlog_env \<Rightarrow> nat \<Rightarrow> 'v Context \<Rightarrow> 'v Context" where
  "Logger_response env elapsed c =
     Msg env (GetLogger env c) (globalResponseLevel env)
       [(''method'', FStr (reqMethod c)), (''request'', FStr (reqPath c)), (''ip'', FStr (clientIP c)),
        (''response'', FInt (status c)), (''bytes'', FInt (size c)), (''time'', FDur elapsed)]
       ''RES %s %s %d %s %s''
       [FStr (reqMethod c), FStr (reqPath c), FInt (status c), FDur elapsed, FStr (clientIP c)] c"

text \<open>The records the two log statements write when their events pass the filter.\<close>

definition request_event :: "zlog_env \<Rightarrow> logger \<Rightarrow> 'v Context \<Rightarrow> log_record" where
  "request_event env l c =
     \<lparr>rec_level = globalRequestLevel env,
      rec_fields = attached l @
        [(''method'', FStr (reqMethod c)), (''origin'', FStr (reqOrigin c)),
         (''path'', FStr (reqPath c)), (''ip'', FStr (clientIP c))],
      rec_format = ''REQ %s %s %s'',
      rec_args = [FStr (reqMethod c), FStr (reqPath c), FStr (clientIP c)]\<rparr>"

definition response_event :: "zlog_env \<Rightarrow> logger \<Rightarrow> nat \<Rightarrow> 'v Context \<Rightarrow> log_record" where
  "response_event env l elapsed c =
     \<lparr>rec_level = globalResponseLevel env,
      rec_fields = attached l @
        [(''method'', FStr (reqMethod c)), (''request'', FStr (reqPath c)), (''ip'', FStr (clientIP c)),
         (''response'', FInt (status c)), (''bytes'', FInt (size c)), (''time'', FDur elapsed)],
      rec_format = ''RES %s %s %d %s %s'',
      rec_args = [FStr (reqMethod c), FStr (reqPath c), FInt (status c), FDur elapsed, FStr (clientIP c)]\<rparr>"

definition Logger :: "zlog_env \<Rightarrow> level \<Rightarrow> string \<Rightarrow> nat \<Rightarrow> ('v Context \<Rightarrow> 'v Context) \<Rightarrow> 'v Context \<Rightarrow> 'v Context" where
  "Logger env lvl requestID elapsed Next c =
     Logger_response env elapsed (Next (Logger_request env lvl requestID c))"

section \<open>Sample inputs\<close>

text \<open>A request as the test suites build it: \<open>POST /\<close>, nothing written yet.\<close>

definition fresh :: "reader option \<Rightarrow> 'v Context" where
  "fresh b =
     \<lparr>reqMethod = ''POST'', reqPath = ''/'', reqQuery = [], reqOrigin = [], clientIP = ''192.0.2.1'',
      reqBody = b, ctxLogger = None, Keys = Map.empty, aborted = False, Errors = [],
      status = 200, size = -1, headers = Map.empty, body_out = [], log_out = []\<rparr>"

text \<open>
  The framework's JSON binding on a body that fits the decoder's first read: without a
  body it fails with ``invalid request''; otherwise it reads the body to its end and
  decodes and validates what it read.
\<close>

definition jsonBinding :: "(string \<Rightarrow> go_error + 'v) \<Rightarrow> 'v should_bind" where
  "jsonBinding decode ctx target =
     (case reqBody ctx of
        None \<Rightarrow> (Inl (ErrorString ''invalid request''), 0)
      | Some r \<Rightarrow> (decode (pending r), length (pending r)))"

text \<open>
  Decoding into the test suite's \<open>TestingBody\<close> (one required string field \<open>Test\<close>),
  given on the documents the examples use: a complete one, one without the field, and
  truncated ones.
\<close>

definition decodeTestingBody :: "string \<Rightarrow> go_error + string" where
  \<open>decodeTestingBody b =
     (if b = ''{"test":"asdf"}'' then Inr ''asdf''
      else if b = ''{}'' then Inl (ValidationErrors [(''Test'', ''required'')])
      else Inl (ErrorString ''unexpected EOF''))\<close>

text \<open>
  The framework's query binding: it reads the URL's query, never the body.  The parser
  is the one of the demo's \<open>TestRequestQuery\<close> (offset, limit), on the queries the
  examples use; the target arrives with its defaults set.
\<close>

definition queryBinding :: "(string \<Rightarrow> 'v \<Rightarrow> go_error + 'v) \<Rightarrow> 'v should_bind" where
  "queryBinding parse ctx target = (parse (reqQuery ctx) target, 0)"

definition parseTestRequestQuery :: "string \<Rightarrow> int \<times> int \<Rightarrow> go_error + int \<times> int" where
  "parseTestRequestQuery q target =
     (if q = [] then Inr target
      else if q = ''offset=20'' then Inr (20, snd target)
      else Inl (ValidationErrors [(''Limit'', ''gte'')]))"

text \<open>The handler of the logging tests: \<open>GetLogger(ctx).WithLevel(lvl).Msg("TEST")\<close>.\<close>

definition logTest :: "zlog_env \<Rightarrow> level \<Rightarrow> 'v Context \<Rightarrow> 'v Context" where
  "logTest env lvl ctx = Msg env (GetLogger env ctx) lvl [] ''TEST'' [] ctx"

text \<open>The settings the package starts with, over a base logger without fields.\<close>

definition stdEnv :: zlog_env where
  "stdEnv =
     \<lparr>globalRequestLevel = TraceLevel, globalResponseLevel = DebugLevel,
      zerologGlobalLevel = TraceLevel, log_Logger = \<lparr>attached = [], min_level = TraceLevel\<rparr>\<rparr>"

section \<open>The bind handler, branch by branch\<close>

text \<open>Once the body is buffered and the binding has answered, the rest is a case split.\<close>

lemma bindHandler_unfold:
  assumes "bufferBody ctx = Inr (body, ctx1)" and "ShouldBind sb ctx1 t = (res, ctx2)"
  shows "bindHandler sb ctx t opts =
     (case res of
        Inl err \<Rightarrow>
          if abort opts then Error err (Abort (ctx2\<lparr>reqBody := Some (NewReader body)\<rparr>))
          else if response opts then
            (case errors_As_ValidationErrors err of
               Some vErr \<Rightarrow>
                 if detail opts then AbortWithStatusJSON (code opts) (validation_body vErr) ctx2
                 else AbortWithStatus (code opts) ctx2
             | None \<Rightarrow> AbortWithStatus (code opts) ctx2)
          else ctx2
      | Inr v \<Rightarrow>
          Set (key opts) v
            (if reqBody ctx2 \<noteq> None then ctx2\<lparr>reqBody := Some (NewReader body)\<rparr> else ctx2))"
  using assms by (simp add: bindHandler_def split: sum.splits)

lemma bufferBody_Inr:
  assumes "bufferBody ctx = Inr (body, ctx1)"
  shows "body = (case reqBody ctx of None \<Rightarrow> [] | Some r \<Rightarrow> pending r)"
    and "ctx1 = ctx\<lparr>reqBody := map_option (\<lambda>r. NewReader (pending r)) (reqBody ctx)\<rparr>"
    and "\<forall>r. reqBody ctx = Some r \<longrightarrow> \<not> failing r"
  using assms
  by (auto simp: bufferBody_def ReadAll_def split: option.splits if_splits)

lemma ShouldBind_frame:
  assumes "ShouldBind sb ctx1 t = (res, ctx2)"
  shows "res = fst (sb ctx1 t)"
    and "ctx2 = ctx1\<lparr>reqBody :=
           map_option (\<lambda>r. r\<lparr>pending := drop (snd (sb ctx1 t)) (pending r)\<rparr>) (reqBody ctx1)\<rparr>"
  using assms by (auto simp: ShouldBind_def split: prod.splits)

lemma bindHandler_failure:
  assumes "bufferBody ctx = Inr (body, ctx1)" and "ShouldBind sb ctx1 t = (Inl err, ctx2)"
  shows "bindHandler sb ctx t opts =
          (if abort opts then Error err (Abort (ctx2\<lparr>reqBody := Some (NewReader body)\<rparr>))
           else if response opts then
            (case errors_As_ValidationErrors err of
               Some vErr \<Rightarrow>
                 if detail opts then AbortWithStatusJSON (code opts) (validation_body vErr) ctx2
                 else AbortWithStatus (code opts) ctx2
             | None \<Rightarrow> AbortWithStatus (code opts) ctx2)
          else ctx2)"
  by (simp add: bindHandler_unfold[OF assms])

section \<open>Option mutators\<close>

text \<open>What one mutator, and then the whole loop, does to each field.\<close>

lemma opt_abort: "is_option f \<Longrightarrow> abort (f bo) = (abort bo \<or> f = WithAbort)"
  unfolding is_option_def
  by (auto simp: WithAbort_def WithResponse_def WithResponseDetail_def WithKey_def WithResponseCode_def fun_eq_iff)

lemma opt_response:
  "is_option f \<Longrightarrow> response (f bo) =
     (response bo \<or> f = WithResponse \<or> f = WithResponseDetail \<or> (\<exists>c. f = WithResponseCode c))"
  unfolding is_option_def
  by (auto simp: WithAbort_def WithResponse_def WithResponseDetail_def WithKey_def WithResponseCode_def fun_eq_iff)

lemma opt_key: "is_option f \<Longrightarrow> \<forall>k. f \<noteq> WithKey k \<Longrightarrow> key (f bo) = key bo"
  unfolding is_option_def
  by (auto simp: WithAbort_def WithResponse_def WithResponseDetail_def WithKey_def WithResponseCode_def)

lemma opt_code: "is_option f \<Longrightarrow> \<forall>c. f \<noteq> WithResponseCode c \<Longrightarrow> code (f bo) = code bo"
  unfolding is_option_def
  by (auto simp: WithAbort_def WithResponse_def WithResponseDetail_def WithKey_def WithResponseCode_def)

lemma applyOpts_append: "applyOpts bo (fs @ gs) = applyOpts (applyOpts bo fs) gs"
  by (induction fs arbitrary: bo) simp_all

lemma applyOpts_abort:
  "\<forall>f \<in> set ms. is_option f \<Longrightarrow> abort (applyOpts bo ms) = (abort bo \<or> WithAbort \<in> set ms)"
proof (induction ms arbitrary: bo)
  case Nil
  show ?case by simp
next
  case (Cons f fs)
  then show ?case using opt_abort[of f bo] by auto
qed

lemma applyOpts_response:
  "\<forall>f \<in> set ms. is_option f \<Longrightarrow> response (applyOpts bo ms) =
     (response bo \<or> WithResponse \<in> set ms \<or> WithResponseDetail \<in> set ms \<or> (\<exists>c. WithResponseCode c \<in> set ms))"
proof (induction ms arbitrary: bo)
  case Nil
  show ?case by simp
next
  case (Cons f fs)
  then show ?case using opt_response[of f bo] by auto
qed

lemma applyOpts_key_kept:
  "\<forall>f \<in> set ms. is_option f \<and> (\<forall>k. f \<noteq> WithKey k) \<Longrightarrow> key (applyOpts bo ms) = key bo"
  by (induction ms arbitrary: bo) (simp_all add: opt_key)

lemma applyOpts_code_kept:
  "\<forall>f \<in> set ms. is_option f \<and> (\<forall>c. f \<noteq> WithResponseCode c) \<Longrightarrow> code (applyOpts bo ms) = code bo"
  by (induction ms arbitrary: bo) (simp_all add: opt_code)

section \<open>Binding: success\<close>

text \<open>
  C7.  When the body (if any) was read without error and the binding succeeds with the
  populated target \<open>v\<close>, the handler leaves the context as it found it except that the
  request body is a fresh reader over exactly the bytes the original body still held
  (whatever the binding consumed of the buffered copy), and \<open>v\<close> is stored under the
  configured key.
\<close>

theorem bind_success_restores_and_stores:
  assumes "bufferBody ctx = Inr (body, ctx1)"
    and "ShouldBind sb ctx1 t = (Inr v, ctx2)"
  shows "bindHandler sb ctx t opts =
           ctx\<lparr>reqBody := map_option (\<lambda>r. NewReader (pending r)) (reqBody ctx),
               Keys := (Keys ctx)(key opts \<mapsto> v)\<rparr>"
proof -
  have c1: "ctx1 = ctx\<lparr>reqBody := map_option (\<lambda>r. NewReader (pending r)) (reqBody ctx)\<rparr>"
    and b: "body = (case reqBody ctx of None \<Rightarrow> [] | Some r \<Rightarrow> pending r)"
    using bufferBody_Inr[OF assms(1)] by simp_all
  have c2: "ctx2 = ctx1\<lparr>reqBody :=
              map_option (\<lambda>r. r\<lparr>pending := drop (snd (sb ctx1 t)) (pending r)\<rparr>) (reqBody ctx1)\<rparr>"
    using ShouldBind_frame[OF assms(2)] by simp
  show ?thesis
  proof (cases "reqBody ctx")
    case None
    then show ?thesis
      using c1 c2 by (simp add: bindHandler_unfold[OF assms] Set_def)
  next
    case (Some r)
    then show ?thesis
      using c1 c2 b by (simp add: bindHandler_unfold[OF assms] Set_def)
  qed
qed

theorem bind_success_restores_and_stores_witness:
  \<open>bufferBody (fresh (Some (NewReader ''{"test":"asdf"}'')) :: string Context)
     = Inr (''{"test":"asdf"}'', fresh (Some (NewReader ''{"test":"asdf"}'')))
   \<and> ShouldBind (jsonBinding decodeTestingBody) (fresh (Some (NewReader ''{"test":"asdf"}''))) []
     = (Inr ''asdf'', (fresh (Some (NewReader ''{"test":"asdf"}'')))\<lparr>reqBody := Some (NewReader [])\<rparr>)
   \<and> bindHandler (jsonBinding decodeTestingBody) (fresh (Some (NewReader ''{"test":"asdf"}''))) []
       (getBindOpts initial_defaults [WithKey ''test_body''])
     = (fresh (Some (NewReader ''{"test":"asdf"}'')))\<lparr>Keys := [''test_body'' \<mapsto> ''asdf'']\<rparr>\<close>
proof -
  let ?c = \<open>fresh (Some (NewReader ''{"test":"asdf"}'')) :: string Context\<close>
  have 1: \<open>bufferBody ?c = Inr (''{"test":"asdf"}'', ?c)\<close>
    by (simp add: bufferBody_def fresh_def ReadAll_def NewReader_def)
  have 2: \<open>ShouldBind (jsonBinding decodeTestingBody) ?c []
             = (Inr ''asdf'', ?c\<lparr>reqBody := Some (NewReader [])\<rparr>)\<close>
    by (simp add: ShouldBind_def jsonBinding_def fresh_def NewReader_def decodeTestingBody_def)
  have 3: \<open>bindHandler (jsonBinding decodeTestingBody) ?c []
             (getBindOpts initial_defaults [WithKey ''test_body''])
           = ?c\<lparr>Keys := [''test_body'' \<mapsto> ''asdf'']\<rparr>\<close>
    using bind_success_restores_and_stores[OF 1 2, of "getBindOpts initial_defaults [WithKey ''test_body'']"]
    by (simp add: fresh_def NewReader_def getBindOpts_def defaultBindOpts_def WithKey_def)
  from 1 2 3 show ?thesis by blast
qed

section \<open>Evaluating the sample requests\<close>

lemma sample_buffer:
  "bufferBody (fresh (Some (NewReader b)) :: 'v Context) = Inr (b, fresh (Some (NewReader b)))"
  by (simp add: bufferBody_def fresh_def ReadAll_def NewReader_def)

lemma sample_bind:
  "ShouldBind (jsonBinding dec) (fresh (Some (NewReader b))) t
     = (dec b, fresh (Some (NewReader [])))"
  by (simp add: ShouldBind_def jsonBinding_def fresh_def NewReader_def)

text \<open>Mutators built by different constructors are different functions.\<close>

lemma WithAbort_not_WithKey: "WithAbort \<noteq> WithKey k"
proof
  assume "WithAbort = WithKey k"
  then have "abort (WithAbort (defaultBindOpts initial_defaults)) = abort (WithKey k (defaultBindOpts initial_defaults))"
    by simp
  then show False
    by (simp add: WithAbort_def WithKey_def defaultBindOpts_def initial_defaults_def)
qed

lemma WithAbort_not_WithResponseCode: "WithAbort \<noteq> WithResponseCode c"
proof
  assume "WithAbort = WithResponseCode c"
  then have "abort (WithAbort (defaultBindOpts initial_defaults)) = abort (WithResponseCode c (defaultBindOpts initial_defaults))"
    by simp
  then show False
    by (simp add: WithAbort_def WithResponseCode_def defaultBindOpts_def initial_defaults_def)
qed

section \<open>Option precedence\<close>

text \<open>
  C3 (as amended).  For every sequence \<open>ms\<close> of mutators built with the package's
  constructors: each mutator is applied to the result of the earlier ones; the key is the
  one of the last \<open>WithKey\<close> and the status code the one of the last
  \<open>WithResponseCode\<close>; the abort and respond flags are only ever switched on, so each
  is set exactly when its default is set or one of its mutators occurs anywhere in the
  sequence; and once the abort flag is set, a decode failure is handled by the abort
  policy (body restored, chain aborted, error attached, nothing written), whether or not
  and wherever a respond option was specified as well.
\<close>

theorem options_fold_abort_first:
  assumes "\<forall>f \<in> set ms. is_option f"
  shows "getBindOpts d (ms @ [g]) = g (getBindOpts d ms)
    \<and> ((\<forall>f \<in> set ms'. is_option f \<and> (\<forall>k'. f \<noteq> WithKey k')) \<longrightarrow>
           key (getBindOpts d (ms @ WithKey k # ms')) = k)
    \<and> ((\<forall>f \<in> set ms'. is_option f \<and> (\<forall>c'. f \<noteq> WithResponseCode c')) \<longrightarrow>
           code (getBindOpts d (ms @ WithResponseCode c # ms')) = c)
    \<and> abort (getBindOpts d ms) = (defaultAbort d \<or> WithAbort \<in> set ms)
    \<and> response (getBindOpts d ms) =
           (defaultResponse d \<or> WithResponse \<in> set ms \<or> WithResponseDetail \<in> set ms \<or>
            (\<exists>c. WithResponseCode c \<in> set ms))
    \<and> (WithAbort \<in> set ms \<longrightarrow> bufferBody ctx = Inr (body, ctx1) \<longrightarrow>
           ShouldBind sb ctx1 t = (Inl err, ctx2) \<longrightarrow>
           bindHandler sb ctx t (getBindOpts d ms) =
             ctx\<lparr>reqBody := Some (NewReader body), aborted := True, Errors := Errors ctx @ [err]\<rparr>)"
proof -
  have 1: "getBindOpts d (ms @ [g]) = g (getBindOpts d ms)"
    by (simp add: getBindOpts_def applyOpts_append)
  have 2: "key (getBindOpts d (ms @ WithKey k # ms')) = k"
    if "\<forall>f \<in> set ms'. is_option f \<and> (\<forall>k'. f \<noteq> WithKey k')"
    using applyOpts_key_kept[OF that] by (simp add: getBindOpts_def applyOpts_append WithKey_def)
  have 3: "code (getBindOpts d (ms @ WithResponseCode c # ms')) = c"
    if "\<forall>f \<in> set ms'. is_option f \<and> (\<forall>c'. f \<noteq> WithResponseCode c')"
    using applyOpts_code_kept[OF that] by (simp add: getBindOpts_def applyOpts_append WithResponseCode_def)
  have 4: "abort (getBindOpts d ms) = (defaultAbort d \<or> WithAbort \<in> set ms)"
    using applyOpts_abort[OF assms] by (simp add: getBindOpts_def defaultBindOpts_def)
  have 5: "response (getBindOpts d ms) =
           (defaultResponse d \<or> WithResponse \<in> set ms \<or> WithResponseDetail \<in> set ms \<or>
            (\<exists>c. WithResponseCode c \<in> set ms))"
    using applyOpts_response[OF assms] by (simp add: getBindOpts_def defaultBindOpts_def)
  have 6: "bindHandler sb ctx t (getBindOpts d ms) =
             ctx\<lparr>reqBody := Some (NewReader body), aborted := True, Errors := Errors ctx @ [err]\<rparr>"
    if w: "WithAbort \<in> set ms" and b: "bufferBody ctx = Inr (body, ctx1)"
      and s: "ShouldBind sb ctx1 t = (Inl err, ctx2)"
  proof -
    have "abort (getBindOpts d ms)" using 4 w by simp
    then show ?thesis
      using bufferBody_Inr(2)[OF b] ShouldBind_frame(2)[OF s]
      by (simp add: bindHandler_failure[OF b s] Error_def Abort_def)
  qed
  from 1 2 3 4 5 6 show ?thesis by blast
qed

theorem options_fold_abort_first_witness:
  \<open>is_option WithAbort \<and> is_option WithResponse
   \<and> (\<forall>k'. WithAbort \<noteq> WithKey k')
   \<and> (\<forall>c'. WithAbort \<noteq> WithResponseCode c')
   \<and> key (getBindOpts initial_defaults ([WithAbort, WithResponse] @ WithKey ''k'' # [WithAbort])) = ''k''
   \<and> code (getBindOpts initial_defaults ([WithAbort, WithResponse] @ WithResponseCode 403 # [WithAbort])) = 403
   \<and> abort (getBindOpts initial_defaults [WithAbort, WithResponse])
   \<and> response (getBindOpts initial_defaults [WithAbort, WithResponse])
   \<and> WithAbort \<in> set [WithAbort, WithResponse]
   \<and> bufferBody (fresh (Some (NewReader ''{}'')) :: string Context) = Inr (''{}'', fresh (Some (NewReader ''{}'')))
   \<and> ShouldBind (jsonBinding decodeTestingBody) (fresh (Some (NewReader ''{}''))) []
        = (Inl (ValidationErrors [(''Test'', ''required'')]), fresh (Some (NewReader [])))
   \<and> bindHandler (jsonBinding decodeTestingBody) (fresh (Some (NewReader ''{}''))) []
        (getBindOpts initial_defaults [WithAbort, WithResponse])
      = (fresh (Some (NewReader ''{}'')))\<lparr>aborted := True, Errors := [ValidationErrors [(''Test'', ''required'')]]\<rparr>\<close>
proof -
  let ?ms = "[WithAbort, WithResponse]"
  let ?c = \<open>fresh (Some (NewReader ''{}'')) :: string Context\<close>
  have h1: "\<forall>f \<in> set ?ms. is_option f"
    by (auto simp: is_option_def)
  have h2: "\<forall>f \<in> set [WithAbort]. is_option f \<and> (\<forall>k'. f \<noteq> WithKey k')"
    by (simp add: is_option_def WithAbort_not_WithKey)
  have h3: "\<forall>f \<in> set [WithAbort]. is_option f \<and> (\<forall>c'. f \<noteq> WithResponseCode c')"
    by (simp add: is_option_def WithAbort_not_WithResponseCode)
  have h4: "WithAbort \<in> set ?ms" by simp
  have h5: \<open>bufferBody ?c = Inr (''{}'', ?c)\<close>
    by (rule sample_buffer)
  have h6: \<open>ShouldBind (jsonBinding decodeTestingBody) ?c []
        = (Inl (ValidationErrors [(''Test'', ''required'')]), fresh (Some (NewReader [])))\<close>
    by (simp add: sample_bind decodeTestingBody_def)
  note T = options_fold_abort_first[OF h1, of initial_defaults _ "[WithAbort]" _ _ ?c "''{}''" ?c "jsonBinding decodeTestingBody" "[]"
      "ValidationErrors [(''Test'', ''required'')]" "fresh (Some (NewReader []))"]
  have k: "key (getBindOpts initial_defaults (?ms @ WithKey ''k'' # [WithAbort])) = ''k''"
    using T[of _ "''k''"] h2 by blast
  have c: "code (getBindOpts initial_defaults (?ms @ WithResponseCode 403 # [WithAbort])) = 403"
    using T[of _ _ 403] h3 by blast
  have a: "abort (getBindOpts initial_defaults ?ms)"
    using T h4 by blast
  have r: "response (getBindOpts initial_defaults ?ms)"
    using T by simp
  have b: \<open>bindHandler (jsonBinding decodeTestingBody) ?c [] (getBindOpts initial_defaults ?ms)
      = ?c\<lparr>aborted := True, Errors := [ValidationErrors [(''Test'', ''required'')]]\<rparr>\<close>
    using T h4 h5 h6 by (simp add: fresh_def)
  have p1: "is_option WithAbort \<and> is_option WithResponse"
    using h1 by simp
  have p2: "\<forall>k'. WithAbort \<noteq> WithKey k'"
    by (simp add: WithAbort_not_WithKey)
  have p3: "\<forall>c'. WithAbort \<noteq> WithResponseCode c'"
    by (simp add: WithAbort_not_WithResponseCode)
  from p1 p2 p3 h4 h5 h6 k c a r b show ?thesis by blast
qed

text \<open>
  C3 (as stated) fails: with the abort option first and the respond option last, a
  decode failure is handled exactly as with the abort option alone, and not as with the
  respond option alone; the status stays 200.
\<close>

theorem respond_last_does_not_win:
  \<open>bindHandler (jsonBinding decodeTestingBody) (fresh (Some (NewReader ''{}''))) []
       (getBindOpts initial_defaults [WithAbort, WithResponse])
     = bindHandler (jsonBinding decodeTestingBody) (fresh (Some (NewReader ''{}''))) []
         (getBindOpts initial_defaults [WithAbort])
   \<and> bindHandler (jsonBinding decodeTestingBody) (fresh (Some (NewReader ''{}''))) []
       (getBindOpts initial_defaults [WithAbort, WithResponse])
     \<noteq> bindHandler (jsonBinding decodeTestingBody) (fresh (Some (NewReader ''{}''))) []
         (getBindOpts initial_defaults [WithResponse])
   \<and> status (bindHandler (jsonBinding decodeTestingBody) (fresh (Some (NewReader ''{}''))) []
       (getBindOpts initial_defaults [WithAbort, WithResponse])) = 200
   \<and> status (bindHandler (jsonBinding decodeTestingBody) (fresh (Some (NewReader ''{}''))) []
       (getBindOpts initial_defaults [WithResponse])) = 400\<close>
proof -
  let ?c = \<open>fresh (Some (NewReader ''{}'')) :: string Context\<close>
  let ?e = "ValidationErrors [(''Test'', ''required'')]"
  have s: \<open>ShouldBind (jsonBinding decodeTestingBody) ?c [] = (Inl ?e, fresh (Some (NewReader [])))\<close>
    by (simp add: sample_bind decodeTestingBody_def)
  note F = bindHandler_failure[OF sample_buffer s]
  have 1: \<open>bindHandler (jsonBinding decodeTestingBody) ?c []
             (getBindOpts initial_defaults [WithAbort, WithResponse])
           = ?c\<lparr>aborted := True, Errors := [?e]\<rparr>\<close>
    using F[of "getBindOpts initial_defaults [WithAbort, WithResponse]"]
    by (simp add: getBindOpts_def defaultBindOpts_def initial_defaults_def WithAbort_def
        WithResponse_def Error_def Abort_def fresh_def)
  have 2: \<open>bindHandler (jsonBinding decodeTestingBody) ?c [] (getBindOpts initial_defaults [WithAbort])
           = ?c\<lparr>aborted := True, Errors := [?e]\<rparr>\<close>
    using F[of "getBindOpts initial_defaults [WithAbort]"]
    by (simp add: getBindOpts_def defaultBindOpts_def initial_defaults_def WithAbort_def
        Error_def Abort_def fresh_def)
  have 3: \<open>bindHandler (jsonBinding decodeTestingBody) ?c [] (getBindOpts initial_defaults [WithResponse])
           = (fresh (Some (NewReader [])))\<lparr>aborted := True, status := 400\<rparr>\<close>
    using F[of "getBindOpts initial_defaults [WithResponse]"]
    by (simp add: getBindOpts_def defaultBindOpts_def initial_defaults_def WithResponse_def
        AbortWithStatus_def Abort_def StatusBadRequest_def fresh_def)
  have 4: \<open>status (?c\<lparr>aborted := True, Errors := [?e]\<rparr>) = 200\<close>
    by (simp add: fresh_def)
  have 5: \<open>status ((fresh (Some (NewReader [])) :: string Context)\<lparr>aborted := True, status := 400\<rparr>) = 400\<close>
    by simp
  have 6: \<open>?c\<lparr>aborted := True, Errors := [?e]\<rparr> \<noteq> (fresh (Some (NewReader [])))\<lparr>aborted := True, status := 400\<rparr>\<close>
    by (simp add: fresh_def)
  show ?thesis
    unfolding 1 2 3 using 4 5 6 by blast
qed

section \<open>Failure policies on the sample requests\<close>

text \<open>
  C1, at the request of the test \<open>TestBindResponseDetailNotValidation\<close>: a truncated
  JSON document, the respond policy with detail enabled.  The handler takes the branch
  for errors other than validation errors, which aborts with the status and writes no
  document at all.
\<close>

theorem respond_detail_malformed_json_no_body:
  \<open>bindHandler (jsonBinding decodeTestingBody) (fresh (Some (NewReader ''{"test": "asdf''))) []
       (getBindOpts initial_defaults [WithResponseDetail])
     = (fresh (Some (NewReader [])))\<lparr>aborted := True, status := 400\<rparr>
   \<and> body_out (bindHandler (jsonBinding decodeTestingBody) (fresh (Some (NewReader ''{"test": "asdf''))) []
       (getBindOpts initial_defaults [WithResponseDetail])) = []\<close>
proof -
  let ?c = \<open>fresh (Some (NewReader ''{"test": "asdf'')) :: string Context\<close>
  have s: \<open>ShouldBind (jsonBinding decodeTestingBody) ?c []
             = (Inl (ErrorString ''unexpected EOF''), fresh (Some (NewReader [])))\<close>
    by (simp add: sample_bind decodeTestingBody_def)
  have 1: \<open>bindHandler (jsonBinding decodeTestingBody) ?c [] (getBindOpts initial_defaults [WithResponseDetail])
           = (fresh (Some (NewReader [])))\<lparr>aborted := True, status := 400\<rparr>\<close>
    using bindHandler_failure[OF sample_buffer s, of "getBindOpts initial_defaults [WithResponseDetail]"]
    by (simp add: getBindOpts_def defaultBindOpts_def initial_defaults_def WithResponseDetail_def
        AbortWithStatus_def Abort_def StatusBadRequest_def fresh_def)
  show ?thesis
    unfolding 1 by (simp add: fresh_def)
qed

text \<open>
  C2, at a document that decodes but fails validation, under the default options: the
  handler returns with the buffered copy read to its end by the binding, so a later
  handler reads no bytes.  Under the abort policy the same request gets its body back.
\<close>

theorem silent_failure_body_not_restored:
  \<open>bindHandler (jsonBinding decodeTestingBody) (fresh (Some (NewReader ''{}''))) []
       (getBindOpts initial_defaults [])
     = fresh (Some (NewReader []))
   \<and> bindHandler (jsonBinding decodeTestingBody) (fresh (Some (NewReader ''{}''))) []
       (getBindOpts initial_defaults [WithAbort])
     = (fresh (Some (NewReader ''{}'')))\<lparr>aborted := True, Errors := [ValidationErrors [(''Test'', ''required'')]]\<rparr>\<close>
proof -
  let ?c = \<open>fresh (Some (NewReader ''{}'')) :: string Context\<close>
  let ?e = "ValidationErrors [(''Test'', ''required'')]"
  have s: \<open>ShouldBind (jsonBinding decodeTestingBody) ?c [] = (Inl ?e, fresh (Some (NewReader [])))\<close>
    by (simp add: sample_bind decodeTestingBody_def)
  note F = bindHandler_failure[OF sample_buffer s]
  have 1: \<open>bindHandler (jsonBinding decodeTestingBody) ?c [] (getBindOpts initial_defaults [])
           = fresh (Some (NewReader []))\<close>
    using F[of "getBindOpts initial_defaults []"]
    by (simp add: getBindOpts_def defaultBindOpts_def initial_defaults_def)
  have 2: \<open>bindHandler (jsonBinding decodeTestingBody) ?c [] (getBindOpts initial_defaults [WithAbort])
           = ?c\<lparr>aborted := True, Errors := [?e]\<rparr>\<close>
    using F[of "getBindOpts initial_defaults [WithAbort]"]
    by (simp add: getBindOpts_def defaultBindOpts_def initial_defaults_def WithAbort_def
        Error_def Abort_def fresh_def)
  from 1 2 show ?thesis by blast
qed

section \<open>Construction\<close>

text \<open>
  C6.  \<open>To\<close> given a value whose type is not of kind struct (or a nil interface) fails
  when it is called, and returns no handler; given a struct it returns the handler,
  which binds into a fresh instance with the options fixed at construction.
\<close>

theorem To_fails_at_construction:
  "(Kind t \<noteq> Struct \<longrightarrow> To sb d (Some t) opts = Inl (BindToPanic (Kind t)))
   \<and> To sb d None opts = Inl NilDereference
   \<and> (Kind t = Struct \<longrightarrow>
        To sb d (Some t) opts = Inr (\<lambda>ctx. bindHandler sb ctx (New t) (getBindOpts d opts)))"
proof (intro conjI impI)
  assume "Kind t \<noteq> Struct"
  then show "To sb d (Some t) opts = Inl (BindToPanic (Kind t))"
    by (simp add: To_def)
next
  show "To sb d None opts = Inl NilDereference"
    by (simp add: To_def)
next
  assume "Kind t = Struct"
  then show "To sb d (Some t) opts = Inr (\<lambda>ctx. bindHandler sb ctx (New t) (getBindOpts d opts))"
    by (simp add: To_def)
qed

theorem To_fails_at_construction_witness:
  "Kind \<lparr>Kind = Pointer, New = ''''\<rparr> \<noteq> Struct
   \<and> To (jsonBinding decodeTestingBody) initial_defaults (Some \<lparr>Kind = Pointer, New = ''''\<rparr>) []
       = Inl (BindToPanic Pointer)
   \<and> Kind \<lparr>Kind = Struct, New = ''''\<rparr> = Struct
   \<and> To (jsonBinding decodeTestingBody) initial_defaults (Some \<lparr>Kind = Struct, New = ''''\<rparr>) []
       = Inr (\<lambda>ctx. bindHandler (jsonBinding decodeTestingBody) ctx '''' (getBindOpts initial_defaults []))"
  using To_fails_at_construction[of "\<lparr>Kind = Pointer, New = ''''\<rparr>" "jsonBinding decodeTestingBody" initial_defaults "[]"]
    To_fails_at_construction[of "\<lparr>Kind = Struct, New = ''''\<rparr>" "jsonBinding decodeTestingBody" initial_defaults "[]"]
  by simp

section \<open>Requests without a body\<close>

lemma ShouldBind_no_body:
  "reqBody ctx = None \<Longrightarrow> ShouldBind sb ctx t = (fst (sb ctx t), ctx)"
  by (simp add: ShouldBind_def split: prod.splits)

lemma bufferBody_no_body:
  "reqBody ctx = None \<Longrightarrow> bufferBody ctx = Inr ([], ctx)"
  by (simp add: bufferBody_def)

text \<open>
  C8 (as amended).  For every request carrying no body the handler reads and replaces
  nothing and goes straight to the binding.  If the binding fails and neither the abort
  nor the respond option is set (the default), the context is left exactly as it was:
  nothing stored, no abort, no response.  If the binding succeeds (a query binding needs
  no body), the target is stored under the configured key.  If it fails under the abort
  or the respond policy, the chain is aborted as for any failed binding.
\<close>

theorem no_body_bind:
  assumes "reqBody ctx = None"
  shows "(fst (sb ctx t) = Inr v \<longrightarrow>
            bindHandler sb ctx t opts = ctx\<lparr>Keys := (Keys ctx)(key opts \<mapsto> v)\<rparr>)
    \<and> (fst (sb ctx t) = Inl err \<and> \<not> abort opts \<and> \<not> response opts \<longrightarrow>
            bindHandler sb ctx t opts = ctx)
    \<and> (fst (sb ctx t) = Inl err \<and> abort opts \<longrightarrow>
            bindHandler sb ctx t opts =
              ctx\<lparr>reqBody := Some (NewReader []), aborted := True, Errors := Errors ctx @ [err]\<rparr>)
    \<and> (fst (sb ctx t) = Inl err \<and> \<not> abort opts \<and> response opts \<longrightarrow>
            aborted (bindHandler sb ctx t opts) \<and> status (bindHandler sb ctx t opts) = code opts \<and>
            Keys (bindHandler sb ctx t opts) = Keys ctx)"
proof -
  note b = bufferBody_no_body[OF assms]
  note s = ShouldBind_no_body[OF assms, of sb t]
  have 1: "bindHandler sb ctx t opts = ctx\<lparr>Keys := (Keys ctx)(key opts \<mapsto> v)\<rparr>"
    if "fst (sb ctx t) = Inr v"
    using bindHandler_unfold[OF b s, of opts] that assms by (simp add: Set_def)
  have F: "bindHandler sb ctx t opts =
          (if abort opts then Error err (Abort (ctx\<lparr>reqBody := Some (NewReader [])\<rparr>))
           else if response opts then
            (case errors_As_ValidationErrors err of
               Some vErr \<Rightarrow>
                 if detail opts then AbortWithStatusJSON (code opts) (validation_body vErr) ctx
                 else AbortWithStatus (code opts) ctx
             | None \<Rightarrow> AbortWithStatus (code opts) ctx)
          else ctx)"
    if "fst (sb ctx t) = Inl err"
    using bindHandler_failure[OF b, of sb t err ctx opts] s that by simp
  have 2: "bindHandler sb ctx t opts = ctx"
    if "fst (sb ctx t) = Inl err \<and> \<not> abort opts \<and> \<not> response opts"
    using F that by simp
  have 3: "bindHandler sb ctx t opts =
              ctx\<lparr>reqBody := Some (NewReader []), aborted := True, Errors := Errors ctx @ [err]\<rparr>"
    if "fst (sb ctx t) = Inl err \<and> abort opts"
    using F that by (simp add: Error_def Abort_def)
  have 4: "aborted (bindHandler sb ctx t opts) \<and> status (bindHandler sb ctx t opts) = code opts \<and>
            Keys (bindHandler sb ctx t opts) = Keys ctx"
    if "fst (sb ctx t) = Inl err \<and> \<not> abort opts \<and> response opts"
    using F that
    by (simp add: AbortWithStatus_def AbortWithStatusJSON_def Abort_def split: option.splits)
  from 1 2 3 4 show ?thesis by blast
qed

theorem no_body_bind_witness:
  \<open>reqBody (fresh None :: string Context) = None
   \<and> fst (jsonBinding decodeTestingBody (fresh None) []) = Inl (ErrorString ''invalid request'')
   \<and> \<not> abort (getBindOpts initial_defaults []) \<and> \<not> response (getBindOpts initial_defaults [])
   \<and> bindHandler (jsonBinding decodeTestingBody) (fresh None) [] (getBindOpts initial_defaults []) = fresh None
   \<and> abort (getBindOpts initial_defaults [WithAbort])
   \<and> bindHandler (jsonBinding decodeTestingBody) (fresh None) [] (getBindOpts initial_defaults [WithAbort])
       = (fresh None)\<lparr>reqBody := Some (NewReader []), aborted := True,
                      Errors := [ErrorString ''invalid request'']\<rparr>
   \<and> reqBody (fresh None :: (int \<times> int) Context) = None
   \<and> fst (queryBinding parseTestRequestQuery (fresh None) (0, 10)) = Inr (0, 10)
   \<and> bindHandler (queryBinding parseTestRequestQuery) (fresh None) (0, 10)
        (getBindOpts initial_defaults [WithKey ''query''])
       = (fresh None)\<lparr>Keys := [''query'' \<mapsto> (0, 10)]\<rparr>\<close>
proof -
  have h0: "reqBody (fresh None :: string Context) = None"
    by (simp add: fresh_def)
  have h1: "fst (jsonBinding decodeTestingBody (fresh None) []) = Inl (ErrorString ''invalid request'')"
    by (simp add: jsonBinding_def fresh_def)
  have h2: "\<not> abort (getBindOpts initial_defaults []) \<and> \<not> response (getBindOpts initial_defaults [])"
    by (simp add: getBindOpts_def defaultBindOpts_def initial_defaults_def)
  have h3: "abort (getBindOpts initial_defaults [WithAbort])"
    by (simp add: getBindOpts_def WithAbort_def)
  have g0: "reqBody (fresh None :: (int \<times> int) Context) = None"
    by (simp add: fresh_def)
  have g1: "fst (queryBinding parseTestRequestQuery (fresh None) (0, 10)) = Inr (0, 10)"
    by (simp add: queryBinding_def parseTestRequestQuery_def fresh_def)
  have a: "bindHandler (jsonBinding decodeTestingBody) (fresh None) [] (getBindOpts initial_defaults []) = fresh None"
    using no_body_bind[OF h0, of "jsonBinding decodeTestingBody" "[]" _ "getBindOpts initial_defaults []"
        "ErrorString ''invalid request''"] h1 h2
    by blast
  have b: "bindHandler (jsonBinding decodeTestingBody) (fresh None) [] (getBindOpts initial_defaults [WithAbort])
       = (fresh None)\<lparr>reqBody := Some (NewReader []), aborted := True,
                      Errors := [ErrorString ''invalid request'']\<rparr>"
    using no_body_bind[OF h0, of "jsonBinding decodeTestingBody" "[]" _ "getBindOpts initial_defaults [WithAbort]"
        "ErrorString ''invalid request''"] h1 h3
    by (simp add: fresh_def)
  have c: "bindHandler (queryBinding parseTestRequestQuery) (fresh None) (0, 10)
        (getBindOpts initial_defaults [WithKey ''query''])
       = (fresh None)\<lparr>Keys := [''query'' \<mapsto> (0, 10)]\<rparr>"
    using no_body_bind[OF g0, of "queryBinding parseTestRequestQuery" "(0, 10)" "(0, 10)"
        "getBindOpts initial_defaults [WithKey ''query'']"] g1
    by (simp add: fresh_def getBindOpts_def WithKey_def)
  from h0 h1 h2 h3 g0 g1 a b c show ?thesis by blast
qed

text \<open>
  C8 (as stated) fails: without a body, the respond policy aborts the chain with status
  400 (the test \<open>TestBindEmptyResponse\<close>), and a query binding that succeeds stores its
  target under the key.
\<close>

theorem no_body_respond_aborts:
  \<open>reqBody (fresh None :: string Context) = None
   \<and> bindHandler (jsonBinding decodeTestingBody) (fresh None) [] (getBindOpts initial_defaults [WithResponse])
       = (fresh None)\<lparr>aborted := True, status := 400\<rparr>
   \<and> aborted (bindHandler (jsonBinding decodeTestingBody) (fresh None) []
        (getBindOpts initial_defaults [WithResponse]))
   \<and> Keys (bindHandler (queryBinding parseTestRequestQuery) (fresh None) (0, 10)
        (getBindOpts initial_defaults [])) ''body'' = Some (0, 10)\<close>
proof -
  have b: "bufferBody (fresh None :: 'a Context) = Inr ([], fresh None)"
    by (simp add: bufferBody_def fresh_def)
  have s: "ShouldBind (jsonBinding decodeTestingBody) (fresh None) []
             = (Inl (ErrorString ''invalid request''), fresh None)"
    by (simp add: ShouldBind_def jsonBinding_def fresh_def)
  have q: "ShouldBind (queryBinding parseTestRequestQuery) (fresh None) (0, 10)
             = (Inr (0, 10), fresh None)"
    by (simp add: ShouldBind_def queryBinding_def parseTestRequestQuery_def fresh_def)
  have 0: "reqBody (fresh None :: string Context) = None"
    by (simp add: fresh_def)
  have 1: "bindHandler (jsonBinding decodeTestingBody) (fresh None) [] (getBindOpts initial_defaults [WithResponse])
       = (fresh None)\<lparr>aborted := True, status := 400\<rparr>"
    using bindHandler_failure[OF b s, of "getBindOpts initial_defaults [WithResponse]"]
    by (simp add: getBindOpts_def defaultBindOpts_def initial_defaults_def WithResponse_def
        AbortWithStatus_def Abort_def StatusBadRequest_def fresh_def)
  have 2: "Keys (bindHandler (queryBinding parseTestRequestQuery) (fresh None) (0, 10)
        (getBindOpts initial_defaults [])) ''body'' = Some (0, 10)"
    using bindHandler_unfold[OF b q, of "getBindOpts initial_defaults []"]
    by (simp add: getBindOpts_def defaultBindOpts_def initial_defaults_def Set_def fresh_def)
  show ?thesis
    using 0 2 unfolding 1 by simp
qed

section \<open>Mutators that imply the respond policy\<close>

text \<open>
  C10.  \<open>WithResponseCode c\<close> sets the respond flag together with the status code,
  and \<open>WithResponseDetail\<close> sets it together with the detail flag.  So with either
  mutator alone, and the abort default off, a failed binding is answered by the respond
  policy: the chain is aborted with the configured status.
\<close>

theorem response_code_and_detail_select_respond:
  "WithResponseCode c bo = bo\<lparr>response := True, code := c\<rparr>
   \<and> response (WithResponseCode c bo) \<and> code (WithResponseCode c bo) = c
   \<and> WithResponseDetail bo = bo\<lparr>response := True, detail := True\<rparr>
   \<and> response (WithResponseDetail bo) \<and> detail (WithResponseDetail bo)
   \<and> (\<not> defaultAbort d \<longrightarrow> bufferBody ctx = Inr (body, ctx1) \<longrightarrow>
        ShouldBind sb ctx1 t = (Inl err, ctx2) \<longrightarrow>
          bindHandler sb ctx t (getBindOpts d [WithResponseCode c]) =
            (case errors_As_ValidationErrors err of
               Some vErr \<Rightarrow>
                 if defaultDetail d then AbortWithStatusJSON c (validation_body vErr) ctx2
                 else AbortWithStatus c ctx2
             | None \<Rightarrow> AbortWithStatus c ctx2)
          \<and> aborted (bindHandler sb ctx t (getBindOpts d [WithResponseCode c]))
          \<and> status (bindHandler sb ctx t (getBindOpts d [WithResponseCode c])) = c
          \<and> bindHandler sb ctx t (getBindOpts d [WithResponseDetail]) =
            (case errors_As_ValidationErrors err of
               Some vErr \<Rightarrow> AbortWithStatusJSON (defaultCode d) (validation_body vErr) ctx2
             | None \<Rightarrow> AbortWithStatus (defaultCode d) ctx2)
          \<and> aborted (bindHandler sb ctx t (getBindOpts d [WithResponseDetail]))
          \<and> status (bindHandler sb ctx t (getBindOpts d [WithResponseDetail])) = defaultCode d)"
proof -
  have 1: "WithResponseCode c bo = bo\<lparr>response := True, code := c\<rparr>
     \<and> response (WithResponseCode c bo) \<and> code (WithResponseCode c bo) = c"
    by (simp add: WithResponseCode_def)
  have 2: "WithResponseDetail bo = bo\<lparr>response := True, detail := True\<rparr>
     \<and> response (WithResponseDetail bo) \<and> detail (WithResponseDetail bo)"
    by (simp add: WithResponseDetail_def)
  have 3: "bindHandler sb ctx t (getBindOpts d [WithResponseCode c]) =
            (case errors_As_ValidationErrors err of
               Some vErr \<Rightarrow>
                 if defaultDetail d then AbortWithStatusJSON c (validation_body vErr) ctx2
                 else AbortWithStatus c ctx2
             | None \<Rightarrow> AbortWithStatus c ctx2)
          \<and> aborted (bindHandler sb ctx t (getBindOpts d [WithResponseCode c]))
          \<and> status (bindHandler sb ctx t (getBindOpts d [WithResponseCode c])) = c"
    if "\<not> defaultAbort d" and b: "bufferBody ctx = Inr (body, ctx1)"
      and s: "ShouldBind sb ctx1 t = (Inl err, ctx2)"
    using that(1)
    by (simp add: bindHandler_failure[OF b s] getBindOpts_def defaultBindOpts_def
        WithResponseCode_def AbortWithStatus_def AbortWithStatusJSON_def Abort_def
        split: option.splits)
  have 4: "bindHandler sb ctx t (getBindOpts d [WithResponseDetail]) =
            (case errors_As_ValidationErrors err of
               Some vErr \<Rightarrow> AbortWithStatusJSON (defaultCode d) (validation_body vErr) ctx2
             | None \<Rightarrow> AbortWithStatus (defaultCode d) ctx2)
          \<and> aborted (bindHandler sb ctx t (getBindOpts d [WithResponseDetail]))
          \<and> status (bindHandler sb ctx t (getBindOpts d [WithResponseDetail])) = defaultCode d"
    if "\<not> defaultAbort d" and b: "bufferBody ctx = Inr (body, ctx1)"
      and s: "ShouldBind sb ctx1 t = (Inl err, ctx2)"
    using that(1)
    by (simp add: bindHandler_failure[OF b s] getBindOpts_def defaultBindOpts_def
        WithResponseDetail_def AbortWithStatus_def AbortWithStatusJSON_def Abort_def
        split: option.splits)
  from 1 2 3 4 show ?thesis by blast
qed

theorem response_code_and_detail_select_respond_witness:
  \<open>\<not> defaultAbort initial_defaults
   \<and> bufferBody (fresh (Some (NewReader ''{}'')) :: string Context) = Inr (''{}'', fresh (Some (NewReader ''{}'')))
   \<and> ShouldBind (jsonBinding decodeTestingBody) (fresh (Some (NewReader ''{}''))) []
        = (Inl (ValidationErrors [(''Test'', ''required'')]), fresh (Some (NewReader [])))
   \<and> bindHandler (jsonBinding decodeTestingBody) (fresh (Some (NewReader ''{}''))) []
        (getBindOpts initial_defaults [WithResponseCode 403])
      = (fresh (Some (NewReader [])))\<lparr>aborted := True, status := 403\<rparr>
   \<and> bindHandler (jsonBinding decodeTestingBody) (fresh (Some (NewReader ''{}''))) []
        (getBindOpts initial_defaults [WithResponseDetail])
      = (fresh (Some (NewReader [])))\<lparr>aborted := True, status := 400,
          body_out := [validation_body [(''Test'', ''required'')]]\<rparr>\<close>
proof -
  let ?c = \<open>fresh (Some (NewReader ''{}'')) :: string Context\<close>
  let ?e = "ValidationErrors [(''Test'', ''required'')]"
  have h1: "\<not> defaultAbort initial_defaults"
    by (simp add: initial_defaults_def)
  have h2: \<open>bufferBody ?c = Inr (''{}'', ?c)\<close>
    by (rule sample_buffer)
  have h3: \<open>ShouldBind (jsonBinding decodeTestingBody) ?c [] = (Inl ?e, fresh (Some (NewReader [])))\<close>
    by (simp add: sample_bind decodeTestingBody_def)
  note T = response_code_and_detail_select_respond[of 403 _ initial_defaults ?c "''{}''" ?c
      "jsonBinding decodeTestingBody" "[]" ?e "fresh (Some (NewReader []))"]
  have a: \<open>bindHandler (jsonBinding decodeTestingBody) ?c [] (getBindOpts initial_defaults [WithResponseCode 403])
      = (fresh (Some (NewReader [])))\<lparr>aborted := True, status := 403\<rparr>\<close>
    using T h1 h2 h3
    by (simp add: initial_defaults_def AbortWithStatus_def Abort_def fresh_def)
  have b: \<open>bindHandler (jsonBinding decodeTestingBody) ?c [] (getBindOpts initial_defaults [WithResponseDetail])
      = (fresh (Some (NewReader [])))\<lparr>aborted := True, status := 400,
          body_out := [validation_body [(''Test'', ''required'')]]\<rparr>\<close>
    using T h1 h2 h3
    by (simp add: initial_defaults_def AbortWithStatusJSON_def Abort_def fresh_def StatusBadRequest_def)
  from h1 h2 h3 a b show ?thesis by blast
qed

section \<open>The error helper\<close>

text \<open>
  C4.  \<open>AbortWithError\<close> returns true exactly when the error is not nil.  With a nil
  error the context is untouched.  Otherwise the chain is aborted with the given status
  and one JSON object whose \<open>code\<close> field is the given code; the object has an
  \<open>error\<close> field, holding the error's description, exactly when the package's detail
  flag is on and the error is not the no-detail sentinel in the sense of \<open>errors.Is\<close>;
  it has no other field.
\<close>

theorem AbortWithError_contract:
  "fst (AbortWithError dt describe ctx err st cd) = (err \<noteq> None)
   \<and> (err = None \<longrightarrow> snd (AbortWithError dt describe ctx err st cd) = ctx)
   \<and> (\<forall>e. err = Some e \<longrightarrow>
        (\<exists>m. snd (AbortWithError dt describe ctx err st cd)
                = ctx\<lparr>aborted := True, status := st, body_out := body_out ctx @ [JObject m]\<rparr>
           \<and> m ''code'' = Some (JString cd)
           \<and> (''error'' \<in> dom m) = (dt \<and> \<not> errors_Is_ErrNoDetail e)
           \<and> (dt \<and> \<not> errors_Is_ErrNoDetail e \<longrightarrow> m ''error'' = Some (describe e))
           \<and> dom m \<subseteq> {''code'', ''error''}))"
proof (cases err)
  case None
  then show ?thesis by (simp add: AbortWithError_def)
next
  case (Some e)
  let ?P = "\<lambda>m. snd (AbortWithError dt describe ctx err st cd)
            = ctx\<lparr>aborted := True, status := st, body_out := body_out ctx @ [JObject m]\<rparr>
          \<and> m ''code'' = Some (JString cd)
          \<and> (''error'' \<in> dom m) = (dt \<and> \<not> errors_Is_ErrNoDetail e)
          \<and> (dt \<and> \<not> errors_Is_ErrNoDetail e \<longrightarrow> m ''error'' = Some (describe e))
          \<and> dom m \<subseteq> {''code'', ''error''}"
  have f: "fst (AbortWithError dt describe ctx err st cd)"
    using Some by (simp add: AbortWithError_def Let_def)
  have "\<exists>m. ?P m"
  proof (cases "dt \<and> \<not> errors_Is_ErrNoDetail e")
    case True
    have "?P [''code'' \<mapsto> JString cd, ''error'' \<mapsto> describe e]"
      using True Some by (simp add: AbortWithError_def AbortWithStatusJSON_def Abort_def Let_def)
    then show ?thesis
      by (rule exI[of ?P "[''code'' \<mapsto> JString cd, ''error'' \<mapsto> describe e]"])
  next
    case False
    have "?P [''code'' \<mapsto> JString cd]"
      using False Some by (auto simp: AbortWithError_def AbortWithStatusJSON_def Abort_def Let_def)
    then show ?thesis
      by (rule exI[of ?P "[''code'' \<mapsto> JString cd]"])
  qed
  then show ?thesis
    using Some f by simp
qed

theorem AbortWithError_contract_witness:
  "Some (ErrorString ''boom'') \<noteq> None
   \<and> fst (AbortWithError True (\<lambda>e. JString ''boom'') (fresh None :: string Context) (Some (ErrorString ''boom'')) 500 ''internal'')
   \<and> (\<exists>m. snd (AbortWithError True (\<lambda>e. JString ''boom'') (fresh None :: string Context) (Some (ErrorString ''boom'')) 500 ''internal'')
            = (fresh None)\<lparr>aborted := True, status := 500, body_out := body_out (fresh None :: string Context) @ [JObject m]\<rparr>
          \<and> m ''code'' = Some (JString ''internal'') \<and> m ''error'' = Some (JString ''boom''))
   \<and> (\<exists>m. snd (AbortWithError True (\<lambda>e. JString ''boom'') (fresh None :: string Context) (Some ErrNoDetail) 403 ''forbidden'')
            = (fresh None)\<lparr>aborted := True, status := 403, body_out := body_out (fresh None :: string Context) @ [JObject m]\<rparr>
          \<and> m ''code'' = Some (JString ''forbidden'') \<and> ''error'' \<notin> dom m)
   \<and> \<not> fst (AbortWithError True (\<lambda>e. JString ''boom'') (fresh None :: string Context) None 500 ''internal'')
   \<and> snd (AbortWithError True (\<lambda>e. JString ''boom'') (fresh None :: string Context) None 500 ''internal'') = fresh None"
proof -
  let ?c = "fresh None :: string Context"
  let ?d = "\<lambda>e::go_error. JString ''boom''"
  note A = AbortWithError_contract[of True ?d ?c "Some (ErrorString ''boom'')" 500 "''internal''"]
  note B = AbortWithError_contract[of True ?d ?c "Some ErrNoDetail" 403 "''forbidden''"]
  note C = AbortWithError_contract[of True ?d ?c None 500 "''internal''"]
  have 1: "fst (AbortWithError True ?d ?c (Some (ErrorString ''boom'')) 500 ''internal'')"
    using A by simp
  have 2: "\<exists>m. snd (AbortWithError True ?d ?c (Some (ErrorString ''boom'')) 500 ''internal'')
            = ?c\<lparr>aborted := True, status := 500, body_out := body_out ?c @ [JObject m]\<rparr>
          \<and> m ''code'' = Some (JString ''internal'') \<and> m ''error'' = Some (JString ''boom'')"
    using A by fastforce
  have 3: "\<exists>m. snd (AbortWithError True ?d ?c (Some ErrNoDetail) 403 ''forbidden'')
            = ?c\<lparr>aborted := True, status := 403, body_out := body_out ?c @ [JObject m]\<rparr>
          \<and> m ''code'' = Some (JString ''forbidden'') \<and> ''error'' \<notin> dom m"
    using B by fastforce
  have 4: "\<not> fst (AbortWithError True ?d ?c None 500 ''internal'')"
    using C by simp
  have 5: "snd (AbortWithError True ?d ?c None 500 ''internal'') = ?c"
    using C by simp
  from 1 2 3 4 5 show ?thesis by blast
qed

section \<open>The logging middleware, statement by statement\<close>

lemma Msg_log_out:
  "log_out (Msg env l lvl fs fmt args c) =
     log_out c @ (if should (zerologGlobalLevel env) l lvl
                  then [\<lparr>rec_level = lvl, rec_fields = attached l @ fs, rec_format = fmt, rec_args = args\<rparr>]
                  else [])"
  by (simp add: Msg_def)

lemma Msg_ctxLogger: "ctxLogger (Msg env l lvl fs fmt args c) = ctxLogger c"
  by (simp add: Msg_def)

lemma Logger_request_logger:
  "GetLogger env (Logger_request env lvl rid c) = Level lvl (With_Str ''id'' rid (log_Logger env))"
  by (simp add: GetLogger_def Logger_request_def Let_def Msg_ctxLogger setLogger_def WithLogger_def Header_def)

lemma Logger_request_log:
  "log_out (Logger_request env lvl rid c) =
     log_out c @
       (if should (zerologGlobalLevel env) (Level lvl (With_Str ''id'' rid (log_Logger env))) (globalRequestLevel env)
        then [request_event env (Level lvl (With_Str ''id'' rid (log_Logger env))) c] else [])"
  by (simp add: Logger_request_def Let_def Msg_log_out request_event_def setLogger_def WithLogger_def Header_def)

lemma Logger_response_log:
  "log_out (Logger_response env el c) =
     log_out c @
       (if should (zerologGlobalLevel env) (GetLogger env c) (globalResponseLevel env)
        then [response_event env (GetLogger env c) el c] else [])"
  by (simp add: Logger_response_def Msg_log_out response_event_def)

lemma request_event_id:
  "(''id'', FStr rid) \<in> set (rec_fields (request_event env (Level lvl (With_Str ''id'' rid l)) c))"
  by (simp add: request_event_def Level_def With_Str_def)

lemma response_event_id:
  "attached l' = attached (Level lvl (With_Str ''id'' rid l)) \<Longrightarrow>
   (''id'', FStr rid) \<in> set (rec_fields (response_event env l' el c))"
  by (simp add: response_event_def Level_def With_Str_def)

lemma SetLevel_eq:
  "SetLevel env v s = s\<lparr>ctxLogger := Some ((GetLogger env s)\<lparr>min_level := v\<rparr>)\<rparr>"
  by (simp add: SetLevel_def Let_def setLogger_def WithLogger_def Level_def)

lemma GetLogger_SetLevel:
  "GetLogger env (SetLevel env v s) = (GetLogger env s)\<lparr>min_level := v\<rparr>"
  by (simp add: SetLevel_eq GetLogger_def)

section \<open>Records per request\<close>

text \<open>The standard settings, evaluated.\<close>

lemma stdEnv_simps:
  "zerologGlobalLevel stdEnv = -1" "globalRequestLevel stdEnv = -1" "globalResponseLevel stdEnv = 0"
  "log_Logger stdEnv = \<lparr>attached = [], min_level = -1\<rparr>"
  by (simp_all add: stdEnv_def TraceLevel_def DebugLevel_def)

text \<open>
  C5 (as amended).  For every request through the logging middleware, whatever the rest
  of the chain does (aborting included): before delegating, the middleware writes the
  request-start record exactly when the process-wide request level passes the filter of
  the logger it created with the minimum level given to \<open>Logger\<close>; after the chain
  returns, it writes the response record exactly when the process-wide response level
  passes the filter of the logger then stored in the request.  So it writes at most two
  records, and exactly two when both levels pass.  The request-start record is tagged
  with the request identifier, and so is the response record whenever the stored logger
  still has the attached fields of the one the middleware created.
\<close>

theorem Logger_records_by_level:
  "(let g = zerologGlobalLevel env;
        L = Level lvl (With_Str ''id'' rid (log_Logger env));
        c3 = Logger_request env lvl rid c;
        c4 = Next c3;
        L' = GetLogger env c4
    in log_out c3 = log_out c @ (if should g L (globalRequestLevel env) then [request_event env L c] else [])
     \<and> log_out (Logger env lvl rid el Next c) =
         log_out c4 @ (if should g L' (globalResponseLevel env) then [response_event env L' el c4] else [])
     \<and> (''id'', FStr rid) \<in> set (rec_fields (request_event env L c))
     \<and> (attached L' = attached L \<longrightarrow> (''id'', FStr rid) \<in> set (rec_fields (response_event env L' el c4)))
     \<and> (should g L (globalRequestLevel env) \<and> should g L' (globalResponseLevel env) \<and> log_out c4 = log_out c3 \<longrightarrow>
          log_out (Logger env lvl rid el Next c) =
            log_out c @ [request_event env L c, response_event env L' el c4]))"
  unfolding Let_def
  using response_event_id[of "GetLogger env (Next (Logger_request env lvl rid c))" lvl rid "log_Logger env" env el
      "Next (Logger_request env lvl rid c)"]
  by (simp add: Logger_def Logger_response_log Logger_request_log request_event_id)

theorem Logger_records_by_level_witness:
  "should (zerologGlobalLevel stdEnv) (Level TraceLevel (With_Str ''id'' ''q2hh'' (log_Logger stdEnv)))
      (globalRequestLevel stdEnv)
   \<and> should (zerologGlobalLevel stdEnv)
        (GetLogger stdEnv (AbortWithStatus 404 (Logger_request stdEnv TraceLevel ''q2hh'' (fresh None :: string Context))))
        (globalResponseLevel stdEnv)
   \<and> log_out (AbortWithStatus 404 (Logger_request stdEnv TraceLevel ''q2hh'' (fresh None :: string Context)))
       = log_out (Logger_request stdEnv TraceLevel ''q2hh'' (fresh None :: string Context))
   \<and> attached (GetLogger stdEnv (AbortWithStatus 404 (Logger_request stdEnv TraceLevel ''q2hh'' (fresh None :: string Context))))
       = attached (Level TraceLevel (With_Str ''id'' ''q2hh'' (log_Logger stdEnv)))
   \<and> log_out (Logger stdEnv TraceLevel ''q2hh'' 5 (AbortWithStatus 404) (fresh None :: string Context))
       = [request_event stdEnv (Level TraceLevel (With_Str ''id'' ''q2hh'' (log_Logger stdEnv))) (fresh None :: string Context),
          response_event stdEnv (Level TraceLevel (With_Str ''id'' ''q2hh'' (log_Logger stdEnv))) 5
            (AbortWithStatus 404 (Logger_request stdEnv TraceLevel ''q2hh'' (fresh None :: string Context)))]
   \<and> (''id'', FStr ''q2hh'') \<in> set (rec_fields
         (request_event stdEnv (Level TraceLevel (With_Str ''id'' ''q2hh'' (log_Logger stdEnv))) (fresh None :: string Context)))
   \<and> (''id'', FStr ''q2hh'') \<in> set (rec_fields
         (response_event stdEnv (Level TraceLevel (With_Str ''id'' ''q2hh'' (log_Logger stdEnv))) 5
            (AbortWithStatus 404 (Logger_request stdEnv TraceLevel ''q2hh'' (fresh None :: string Context)))))"
proof -
  let ?c = "fresh None :: string Context"
  let ?L = "Level TraceLevel (With_Str ''id'' ''q2hh'' (log_Logger stdEnv))"
  let ?c3 = "Logger_request stdEnv TraceLevel ''q2hh'' ?c"
  let ?c4 = "AbortWithStatus 404 ?c3"
  have g: "GetLogger stdEnv ?c4 = ?L"
    using Logger_request_logger[of stdEnv TraceLevel "''q2hh''" ?c]
    by (simp add: GetLogger_def AbortWithStatus_def Abort_def)
  have h1: "should (zerologGlobalLevel stdEnv) ?L (globalRequestLevel stdEnv)"
    by (simp add: should_def stdEnv_simps Level_def TraceLevel_def Disabled_def)
  have h2: "should (zerologGlobalLevel stdEnv) (GetLogger stdEnv ?c4) (globalResponseLevel stdEnv)"
    unfolding g by (simp add: should_def stdEnv_simps Level_def TraceLevel_def Disabled_def)
  have h3: "log_out ?c4 = log_out ?c3"
    by (simp add: AbortWithStatus_def Abort_def)
  have h4: "attached (GetLogger stdEnv ?c4) = attached ?L"
    unfolding g by simp
  note T = Logger_records_by_level[of stdEnv TraceLevel "''q2hh''" ?c "AbortWithStatus 404" 5, unfolded Let_def]
  have two: "log_out (Logger stdEnv TraceLevel ''q2hh'' 5 (AbortWithStatus 404) ?c)
      = log_out ?c @ [request_event stdEnv ?L ?c, response_event stdEnv (GetLogger stdEnv ?c4) 5 ?c4]"
    using T h1 h2 h3 by blast
  have i1: "(''id'', FStr ''q2hh'') \<in> set (rec_fields (request_event stdEnv ?L ?c))"
    using T by blast
  have i2: "(''id'', FStr ''q2hh'') \<in> set (rec_fields (response_event stdEnv (GetLogger stdEnv ?c4) 5 ?c4))"
    using T h4 by blast
  have e: "log_out ?c = []"
    by (simp add: fresh_def)
  have 5: "log_out (Logger stdEnv TraceLevel ''q2hh'' 5 (AbortWithStatus 404) ?c)
      = [request_event stdEnv ?L ?c, response_event stdEnv ?L 5 ?c4]"
    using two e g by simp
  have 6: "(''id'', FStr ''q2hh'') \<in> set (rec_fields (response_event stdEnv ?L 5 ?c4))"
    using i2 g by simp
  from h1 h2 h3 h4 5 i1 6 show ?thesis by blast
qed

text \<open>
  C5 (as stated) fails: with the standard settings (request level Trace, response level
  Debug) and \<open>Logger(WarnLevel)\<close>, as in the test \<open>TestLogExtra\<close>, the middleware
  writes no record at all; with the demo's settings (\<open>Logger(InfoLevel)\<close>, response
  level Info) it writes one.
\<close>

theorem Logger_warn_level_emits_nothing:
  "log_out (Logger stdEnv WarnLevel ''q2hh'' 5 id (fresh None :: string Context)) = []
   \<and> length (log_out (Logger (stdEnv\<lparr>globalResponseLevel := InfoLevel\<rparr>) InfoLevel ''q2hh'' 5 id
        (fresh None :: string Context))) = 1"
proof -
  let ?c = "fresh None :: string Context"
  have e: "log_out ?c = []"
    by (simp add: fresh_def)
  have 1: "log_out (Logger stdEnv WarnLevel ''q2hh'' 5 id ?c) = []"
    by (simp add: Logger_def Logger_response_log Logger_request_log Logger_request_logger e
        should_def stdEnv_simps Level_def WarnLevel_def)
  have 2: "length (log_out (Logger (stdEnv\<lparr>globalResponseLevel := InfoLevel\<rparr>) InfoLevel ''q2hh'' 5 id ?c)) = 1"
    by (simp add: Logger_def Logger_response_log Logger_request_log Logger_request_logger e
        should_def stdEnv_simps Level_def InfoLevel_def Disabled_def)
  from 1 2 show ?thesis by blast
qed

section \<open>The level override\<close>

text \<open>
  C9.  \<open>SetLevel(v)\<close> replaces the stored logger by a copy that differs only in its
  minimum level: the attached fields (the request identifier among them) are the same,
  and nothing else in the context changes, the records already written included.  A
  record emitted through the stored logger after the override is filtered by \<open>v\<close>.
  In a request served by \<open>Logger(lvl)\<close> whose chain runs handlers \<open>f\<close>, then the
  override, then handlers \<open>h\<close> (handlers only ever add records), the log written up to
  the request-start record, which is decided by \<open>lvl\<close> alone, is a prefix of the final
  log; and with the override as the whole chain, the request-start record is filtered by
  \<open>lvl\<close> and the response record by \<open>v\<close>.
\<close>

theorem SetLevel_overrides_level_only:
  assumes "\<forall>s. prefix (log_out s) (log_out (f s))"
    and "\<forall>s. prefix (log_out s) (log_out (h s))"
  shows "GetLogger env (SetLevel env v s) = (GetLogger env s)\<lparr>min_level := v\<rparr>
    \<and> attached (GetLogger env (SetLevel env v s)) = attached (GetLogger env s)
    \<and> SetLevel env v s = s\<lparr>ctxLogger := Some ((GetLogger env s)\<lparr>min_level := v\<rparr>)\<rparr>
    \<and> log_out (SetLevel env v s) = log_out s
    \<and> should (zerologGlobalLevel env) (GetLogger env (SetLevel env v s)) x
        = (x \<noteq> Disabled \<and> v \<le> x \<and> zerologGlobalLevel env \<le> x)
    \<and> prefix (log_out (Logger_request env lvl rid c))
         (log_out (Logger env lvl rid el (h \<circ> SetLevel env v \<circ> f) c))
    \<and> log_out (Logger env lvl rid el (SetLevel env v) c) =
        log_out c
        @ (if should (zerologGlobalLevel env) (Level lvl (With_Str ''id'' rid (log_Logger env)))
              (globalRequestLevel env)
           then [request_event env (Level lvl (With_Str ''id'' rid (log_Logger env))) c] else [])
        @ (if should (zerologGlobalLevel env) (Level v (With_Str ''id'' rid (log_Logger env)))
              (globalResponseLevel env)
           then [response_event env (Level v (With_Str ''id'' rid (log_Logger env))) el
                   (SetLevel env v (Logger_request env lvl rid c))] else [])"
proof -
  let ?c3 = "Logger_request env lvl rid c"
  have 1: "GetLogger env (SetLevel env v s) = (GetLogger env s)\<lparr>min_level := v\<rparr>"
    by (rule GetLogger_SetLevel)
  have 2: "attached (GetLogger env (SetLevel env v s)) = attached (GetLogger env s)"
    by (simp add: GetLogger_SetLevel)
  have 3: "SetLevel env v s = s\<lparr>ctxLogger := Some ((GetLogger env s)\<lparr>min_level := v\<rparr>)\<rparr>"
    by (rule SetLevel_eq)
  have 4: "log_out (SetLevel env v s) = log_out s"
    by (simp add: SetLevel_eq)
  have 5: "should (zerologGlobalLevel env) (GetLogger env (SetLevel env v s)) x
        = (x \<noteq> Disabled \<and> v \<le> x \<and> zerologGlobalLevel env \<le> x)"
    by (simp add: GetLogger_SetLevel should_def)
  have "prefix (log_out ?c3) (log_out (f ?c3))"
    using assms(1) by blast
  also have "log_out (f ?c3) = log_out (SetLevel env v (f ?c3))"
    by (simp add: SetLevel_eq)
  also have "prefix (log_out (SetLevel env v (f ?c3))) (log_out (h (SetLevel env v (f ?c3))))"
    using assms(2) by blast
  also have "prefix (log_out (h (SetLevel env v (f ?c3))))
      (log_out (Logger env lvl rid el (h \<circ> SetLevel env v \<circ> f) c))"
    by (simp add: Logger_def Logger_response_log)
  finally have 6: "prefix (log_out ?c3) (log_out (Logger env lvl rid el (h \<circ> SetLevel env v \<circ> f) c))" .
  have L: "GetLogger env (SetLevel env v ?c3) = Level v (With_Str ''id'' rid (log_Logger env))"
    by (simp add: GetLogger_SetLevel Logger_request_logger Level_def)
  have 7: "log_out (Logger env lvl rid el (SetLevel env v) c) =
        log_out c
        @ (if should (zerologGlobalLevel env) (Level lvl (With_Str ''id'' rid (log_Logger env)))
              (globalRequestLevel env)
           then [request_event env (Level lvl (With_Str ''id'' rid (log_Logger env))) c] else [])
        @ (if should (zerologGlobalLevel env) (Level v (With_Str ''id'' rid (log_Logger env)))
              (globalResponseLevel env)
           then [response_event env (Level v (With_Str ''id'' rid (log_Logger env))) el
                   (SetLevel env v (Logger_request env lvl rid c))] else [])"
  proof -
    have a: "log_out (Logger env lvl rid el (SetLevel env v) c) =
        log_out (SetLevel env v ?c3)
        @ (if should (zerologGlobalLevel env) (GetLogger env (SetLevel env v ?c3)) (globalResponseLevel env)
           then [response_event env (GetLogger env (SetLevel env v ?c3)) el (SetLevel env v ?c3)] else [])"
      by (simp add: Logger_def Logger_response_log)
    have b: "log_out (SetLevel env v ?c3) = log_out ?c3"
      by (simp add: SetLevel_eq)
    show ?thesis
      unfolding a b L Logger_request_log by simp
  qed
  from 1 2 3 4 5 6 7 show ?thesis by blast
qed

theorem SetLevel_overrides_level_only_witness:
  "(\<forall>s :: string Context. prefix (log_out s) (log_out (id s)))
   \<and> (\<forall>s :: string Context. prefix (log_out s) (log_out (logTest stdEnv DebugLevel s)))
   \<and> log_out (Logger_request stdEnv TraceLevel ''q2hh'' (fresh None :: string Context))
       = [request_event stdEnv (Level TraceLevel (With_Str ''id'' ''q2hh'' (log_Logger stdEnv))) (fresh None :: string Context)]
   \<and> prefix (log_out (Logger_request stdEnv TraceLevel ''q2hh'' (fresh None :: string Context)))
        (log_out (Logger stdEnv TraceLevel ''q2hh'' 5
           (logTest stdEnv DebugLevel \<circ> SetLevel stdEnv WarnLevel \<circ> id) (fresh None :: string Context)))
   \<and> log_out (Logger stdEnv TraceLevel ''q2hh'' 5 (SetLevel stdEnv WarnLevel) (fresh None :: string Context))
       = [request_event stdEnv (Level TraceLevel (With_Str ''id'' ''q2hh'' (log_Logger stdEnv))) (fresh None :: string Context)]
   \<and> log_out (Logger stdEnv WarnLevel ''q2hh'' 5 (SetLevel stdEnv DebugLevel) (fresh None :: string Context))
       = [response_event stdEnv (Level DebugLevel (With_Str ''id'' ''q2hh'' (log_Logger stdEnv))) 5
            (SetLevel stdEnv DebugLevel (Logger_request stdEnv WarnLevel ''q2hh'' (fresh None :: string Context)))]
   \<and> attached (GetLogger stdEnv (SetLevel stdEnv DebugLevel (Logger_request stdEnv WarnLevel ''q2hh'' (fresh None :: string Context))))
       = [(''id'', FStr ''q2hh'')]"
proof -
  let ?c = "fresh None :: string Context"
  have h1: "\<forall>s :: string Context. prefix (log_out s) (log_out (id s))"
    by simp
  have h2: "\<forall>s :: string Context. prefix (log_out s) (log_out (logTest stdEnv DebugLevel s))"
    by (simp add: logTest_def Msg_log_out)
  have e: "log_out ?c = []"
    by (simp add: fresh_def)
  note T = SetLevel_overrides_level_only[OF h1 h2, of stdEnv _ _ _ _ "''q2hh''" ?c 5]
  have 1: "log_out (Logger_request stdEnv TraceLevel ''q2hh'' ?c)
       = [request_event stdEnv (Level TraceLevel (With_Str ''id'' ''q2hh'' (log_Logger stdEnv))) ?c]"
    by (simp add: Logger_request_log e should_def stdEnv_simps Level_def TraceLevel_def Disabled_def)
  have 2: "prefix (log_out (Logger_request stdEnv TraceLevel ''q2hh'' ?c))
        (log_out (Logger stdEnv TraceLevel ''q2hh'' 5
           (logTest stdEnv DebugLevel \<circ> SetLevel stdEnv WarnLevel \<circ> id) ?c))"
    using T[of WarnLevel ?c 0 TraceLevel] by blast
  have 3: "log_out (Logger stdEnv TraceLevel ''q2hh'' 5 (SetLevel stdEnv WarnLevel) ?c)
       = [request_event stdEnv (Level TraceLevel (With_Str ''id'' ''q2hh'' (log_Logger stdEnv))) ?c]"
    using T[of WarnLevel ?c 0 TraceLevel]
    by (simp add: e should_def stdEnv_simps Level_def TraceLevel_def WarnLevel_def Disabled_def)
  have 4: "log_out (Logger stdEnv WarnLevel ''q2hh'' 5 (SetLevel stdEnv DebugLevel) ?c)
       = [response_event stdEnv (Level DebugLevel (With_Str ''id'' ''q2hh'' (log_Logger stdEnv))) 5
            (SetLevel stdEnv DebugLevel (Logger_request stdEnv WarnLevel ''q2hh'' ?c))]"
    using T[of DebugLevel ?c 0 WarnLevel]
    by (simp add: e should_def stdEnv_simps Level_def DebugLevel_def WarnLevel_def Disabled_def)
  have 5: "attached (GetLogger stdEnv (SetLevel stdEnv DebugLevel (Logger_request stdEnv WarnLevel ''q2hh'' ?c)))
       = [(''id'', FStr ''q2hh'')]"
  proof -
    have "attached (GetLogger stdEnv (SetLevel stdEnv DebugLevel (Logger_request stdEnv WarnLevel ''q2hh'' ?c)))
        = attached (GetLogger stdEnv (Logger_request stdEnv WarnLevel ''q2hh'' ?c))"
      using T[of DebugLevel "Logger_request stdEnv WarnLevel ''q2hh'' ?c" 0 WarnLevel] by blast
    then show ?thesis
      by (simp add: Logger_request_logger Level_def With_Str_def stdEnv_simps)
  qed
  from h1 h2 1 2 3 4 5 show ?thesis by blast
qed

end
